theory Spec2Isabelle
  imports Main "HOL-Library.AList" "HOL-Library.Word"
begin

unbundle bit_operations_syntax

section \<open>Data model\<close>

text \<open>
  A Python \<open>str\<close> is modelled as an Isabelle \<open>string\<close> whose characters are the code
  points U+0000 .. U+00FF; a character below 128 is an ASCII character. Python's
  unbounded \<open>int\<close> is \<open>int\<close>. The values that travel in operations and responses are
  the JSON values \<open>None\<close>, \<open>bool\<close>, \<open>int\<close>, \<open>str\<close>, \<open>list\<close> and \<open>dict\<close> with \<open>str\<close> keys
  (floats are left out). A \<open>dict\<close> is an association list in insertion order with
  distinct keys: \<open>d.get(k)\<close> is \<open>map_of d k\<close>, and \<open>d[k] = v\<close> is \<open>AList.update k v d\<close>,
  which replaces the value in place when \<open>k\<close> is present and appends the pair otherwise.
\<close>

datatype json =
    JNull
  | JBool bool
  | JInt int
  | JStr string
  | JList "json list"
  | JDict "(string \<times> json) list"

type_synonym pydict = "(string \<times> json) list"

text \<open>\<open>Union[str, int]\<close>: the two forms a conveyor id is passed in.\<close>

datatype conv_id = ConvInt int | ConvStr string

text \<open>The exceptions of \<open>exceptions.py\<close> and the built-in ones the code lets escape.\<close>

datatype exn =
    ValueError string
  | TypeError string
  | ValidationError string
  | AttributeError string
  | ConnectionError string
  | APIError string "string option"

section \<open>\<open>str()\<close> of an integer\<close>

definition digit_char :: "nat \<Rightarrow> char" where
  "digit_char n = ''0123456789'' ! n"

definition hex_digit :: "nat \<Rightarrow> char" where
  "hex_digit n = ''0123456789abcdef'' ! n"

function str_nat :: "nat \<Rightarrow> string" where
  "str_nat n = (if n < 10 then [digit_char n] else str_nat (n div 10) @ [digit_char (n mod 10)])"
  by pat_completeness auto
termination
  by (relation "measure id") auto

declare str_nat.simps [simp del]

definition str_int :: "int \<Rightarrow> string" where
  "str_int i = (if i < 0 then CHR ''-'' # str_nat (nat (- i)) else str_nat (nat i))"

fun str_conv :: "conv_id \<Rightarrow> string" where
  "str_conv (ConvInt i) = str_int i"
| "str_conv (ConvStr s) = s"

text \<open>Reading a decimal numeral back, to say what \<open>str_int\<close> renders.\<close>

definition is_digit :: "char \<Rightarrow> bool" where
  "is_digit c = (c \<in> set ''0123456789'')"

definition digit_val :: "char \<Rightarrow> nat" where
  "digit_val c = of_char c - 48"

definition nat_of_decimal :: "string \<Rightarrow> nat" where
  "nat_of_decimal s = foldl (\<lambda>acc c. 10 * acc + digit_val c) 0 s"

definition int_of_decimal :: "string \<Rightarrow> int" where
  "int_of_decimal s =
     (case s of
        [] \<Rightarrow> 0
      | c # cs \<Rightarrow> if c = CHR ''-'' then - int (nat_of_decimal cs) else int (nat_of_decimal s))"

section \<open>Signatures and serialisation (\<open>utils.py\<close>)\<close>

type_synonym byte = "8 word"

text \<open>\<open>str.encode('utf-8')\<close> on code points below 256: one byte below 128, two bytes above.\<close>

definition encode_utf8 :: "string \<Rightarrow> byte list" where
  "encode_utf8 s =
     concat (map (\<lambda>c. let n = (of_char c :: nat)
                       in if n < 128 then [of_nat n]
                          else [of_nat (192 + n div 64), of_nat (128 + n mod 64)]) s)"

text \<open>
  SHA-256 as \<open>hashlib.sha256\<close> computes it (FIPS 180-4): padding to whole 64-byte blocks,
  the message schedule, 64 rounds per block on eight 32-bit words with wrap-around
  addition, and the big-endian bytes of the final state.
\<close>

definition Ch :: "32 word \<Rightarrow> 32 word \<Rightarrow> 32 word \<Rightarrow> 32 word" where
  "Ch x y z = (x AND y) XOR (NOT x AND z)"

definition Maj :: "32 word \<Rightarrow> 32 word \<Rightarrow> 32 word \<Rightarrow> 32 word" where
  "Maj x y z = (x AND y) XOR (x AND z) XOR (y AND z)"

definition big_sigma0 :: "32 word \<Rightarrow> 32 word" where
  "big_sigma0 x = word_rotr 2 x XOR word_rotr 13 x XOR word_rotr 22 x"

definition big_sigma1 :: "32 word \<Rightarrow> 32 word" where
  "big_sigma1 x = word_rotr 6 x XOR word_rotr 11 x XOR word_rotr 25 x"

definition small_sigma0 :: "32 word \<Rightarrow> 32 word" where
  "small_sigma0 x = word_rotr 7 x XOR word_rotr 18 x XOR drop_bit 3 x"

definition small_sigma1 :: "32 word \<Rightarrow> 32 word" where
  "small_sigma1 x = word_rotr 17 x XOR word_rotr 19 x XOR drop_bit 10 x"

text \<open>The round constants, eight rounds to a row.\<close>

definition sha256_K :: "32 word list" where
  "sha256_K =
     [0x428a2f98, 0x71374491, 0xb5c0fbcf, 0xe9b5dba5, 0x3956c25b, 0x59f111f1, 0x923f82a4, 0xab1c5ed5] @
     [0xd807aa98, 0x12835b01, 0x243185be, 0x550c7dc3, 0x72be5d74, 0x80deb1fe, 0x9bdc06a7, 0xc19bf174] @
     [0xe49b69c1, 0xefbe4786, 0x0fc19dc6, 0x240ca1cc, 0x2de92c6f, 0x4a7484aa, 0x5cb0a9dc, 0x76f988da] @
     [0x983e5152, 0xa831c66d, 0xb00327c8, 0xbf597fc7, 0xc6e00bf3, 0xd5a79147, 0x06ca6351, 0x14292967] @
     [0x27b70a85, 0x2e1b2138, 0x4d2c6dfc, 0x53380d13, 0x650a7354, 0x766a0abb, 0x81c2c92e, 0x92722c85] @
     [0xa2bfe8a1, 0xa81a664b, 0xc24b8b70, 0xc76c51a3, 0xd192e819, 0xd6990624, 0xf40e3585, 0x106aa070] @
     [0x19a4c116, 0x1e376c08, 0x2748774c, 0x34b0bcb5, 0x391c0cb3, 0x4ed8aa4a, 0x5b9cca4f, 0x682e6ff3] @
     [0x748f82ee, 0x78a5636f, 0x84c87814, 0x8cc70208, 0x90befffa, 0xa4506ceb, 0xbef9a3f7, 0xc67178f2]"

type_synonym sha_state =
  "32 word \<times> 32 word \<times> 32 word \<times> 32 word \<times> 32 word \<times> 32 word \<times> 32 word \<times> 32 word"

definition sha256_init :: sha_state where
  "sha256_init =
     (0x6a09e667, 0xbb67ae85, 0x3c6ef372, 0xa54ff53a, 0x510e527f, 0x9b05688c, 0x1f83d9ab, 0x5be0cd19)"

definition sha256_pad :: "byte list \<Rightarrow> byte list" where
  "sha256_pad m =
     m @ [0x80] @ replicate ((119 - length m mod 64) mod 64) 0
       @ map (\<lambda>k. ucast (drop_bit (8 * (7 - k)) (of_nat (8 * length m) :: 64 word))) [0..<8]"

definition be32 :: "byte list \<Rightarrow> 32 word" where
  "be32 bs = foldl (\<lambda>acc b. push_bit 8 acc OR ucast b) 0 bs"

definition block_words :: "byte list \<Rightarrow> 32 word list" where
  "block_words blk = map (\<lambda>i. be32 (take 4 (drop (4 * i) blk))) [0..<16]"

definition schedule :: "32 word list \<Rightarrow> 32 word list" where
  "schedule ws =
     foldl (\<lambda>w t. w @ [small_sigma1 (w ! (t - 2)) + w ! (t - 7)
                        + small_sigma0 (w ! (t - 15)) + w ! (t - 16)])
           ws [16..<64]"

definition round_step :: "32 word list \<Rightarrow> sha_state \<Rightarrow> nat \<Rightarrow> sha_state" where
  "round_step w st t =
     (case st of (a, b, c, d, e, f, g, h) \<Rightarrow>
        let t1 = h + big_sigma1 e + Ch e f g + sha256_K ! t + w ! t;
            t2 = big_sigma0 a + Maj a b c
        in (t1 + t2, a, b, c, d + t1, e, f, g))"

definition compress :: "sha_state \<Rightarrow> byte list \<Rightarrow> sha_state" where
  "compress st blk =
     (case st of (a, b, c, d, e, f, g, h) \<Rightarrow>
        case foldl (round_step (schedule (block_words blk))) st [0..<64] of
          (a', b', c', d', e', f', g', h') \<Rightarrow>
            (a + a', b + b', c + c', d + d', e + e', f + f', g + g', h + h'))"

definition word_bytes :: "32 word \<Rightarrow> byte list" where
  "word_bytes w = [ucast (drop_bit 24 w), ucast (drop_bit 16 w), ucast (drop_bit 8 w), ucast w]"

definition sha256 :: "byte list \<Rightarrow> byte list" where
  "sha256 m =
     (let p = sha256_pad m;
          blocks = map (\<lambda>i. take 64 (drop (64 * i) p)) [0..<length p div 64]
      in case foldl compress sha256_init blocks of
           (a, b, c, d, e, f, g, h) \<Rightarrow> concat (map word_bytes [a, b, c, d, e, f, g, h]))"

text \<open>
  \<open>hmac.new(key, msg, hashlib.sha256)\<close>: a key longer than the 64-byte block is hashed
  first, the key is padded with zero bytes to the block, and the digest is
  \<open>H((key xor 0x5c) || H((key xor 0x36) || msg))\<close>.
\<close>

definition hmac_sha256 :: "byte list \<Rightarrow> byte list \<Rightarrow> byte list" where
  "hmac_sha256 key msg =
     (let k = (if length key > 64 then sha256 key else key);
          k' = k @ replicate (64 - length k) 0
      in sha256 (map (\<lambda>b. b XOR 0x5c) k' @ sha256 (map (\<lambda>b. b XOR 0x36) k' @ msg)))"

definition hexdigest :: "byte list \<Rightarrow> string" where
  "hexdigest bs = concat (map (\<lambda>b. [hex_digit (unat b div 16), hex_digit (unat b mod 16)]) bs)"

definition generate_signature :: "string \<Rightarrow> string \<Rightarrow> string \<Rightarrow> string" where
  "generate_signature api_secret timestamp content =
     (let message = timestamp @ content
      in hexdigest (hmac_sha256 (encode_utf8 api_secret) (encode_utf8 message)))"

text \<open>
  \<open>hmac.compare_digest\<close> on two \<open>str\<close>: both must be ASCII-only, else it raises
  \<open>TypeError\<close>; on ASCII strings it answers whether they are equal.
\<close>

definition is_ascii :: "char \<Rightarrow> bool" where
  "is_ascii c = ((of_char c :: nat) < 128)"

definition compare_digest :: "string \<Rightarrow> string \<Rightarrow> exn + bool" where
  "compare_digest a b =
     (if list_all is_ascii a \<and> list_all is_ascii b then Inr (a = b)
      else Inl (TypeError ''comparing strings with non-ASCII characters is not supported''))"

definition verify_signature :: "string \<Rightarrow> string \<Rightarrow> string \<Rightarrow> string \<Rightarrow> exn + bool" where
  "verify_signature signature api_secret timestamp content =
     (let expected_signature = generate_signature api_secret timestamp content
      in compare_digest signature expected_signature)"

definition is_lower_hex :: "char \<Rightarrow> bool" where
  "is_lower_hex c = (c \<in> set ''0123456789abcdef'')"

text \<open>
  \<open>json.dumps(data, separators=(',', ':'))\<close> with the default \<open>ensure_ascii\<close>: in a string
  the backslash, the double quote and the control characters with a short form are
  escaped with a backslash, the printable ASCII characters stand for themselves, and
  every other character is written \<open>\u00XX\<close> with lowercase hexadecimal digits; list and
  dict items are joined with \<open>','\<close>, a key and its value with \<open>':'\<close>.
\<close>

definition escape_char :: "char \<Rightarrow> string" where
  "escape_char c =
     (let n = (of_char c :: nat) in
      if c = CHR 0x5C then [CHR 0x5C, CHR 0x5C]
      else if c = CHR 0x22 then [CHR 0x5C, CHR 0x22]
      else if c = CHR 0x08 then [CHR 0x5C, CHR ''b'']
      else if c = CHR 0x0C then [CHR 0x5C, CHR ''f'']
      else if c = CHR 0x0A then [CHR 0x5C, CHR ''n'']
      else if c = CHR 0x0D then [CHR 0x5C, CHR ''r'']
      else if c = CHR 0x09 then [CHR 0x5C, CHR ''t'']
      else if 0x20 \<le> n \<and> n \<le> 0x7E then [c]
      else [CHR 0x5C, CHR ''u'', CHR ''0'', CHR ''0'', hex_digit (n div 16), hex_digit (n mod 16)])"

definition encode_basestring_ascii :: "string \<Rightarrow> string" where
  "encode_basestring_ascii s = [CHR 0x22] @ concat (map escape_char s) @ [CHR 0x22]"

fun join :: "string \<Rightarrow> string list \<Rightarrow> string" where
  "join sep [] = []"
| "join sep [x] = x"
| "join sep (x # y # ys) = x @ sep @ join sep (y # ys)"

fun dumps :: "json \<Rightarrow> string" where
  "dumps JNull = ''null''"
| "dumps (JBool b) = (if b then ''true'' else ''false'')"
| "dumps (JInt i) = str_int i"
| "dumps (JStr s) = encode_basestring_ascii s"
| "dumps (JList xs) = ''['' @ join '','' (map dumps xs) @ '']''"
| "dumps (JDict kvs) =
     ''{'' @ join '','' (map (\<lambda>(k, v). encode_basestring_ascii k @ '':'' @ dumps v) kvs) @ ''}''"

definition to_json :: "json \<Rightarrow> string" where
  "to_json d = dumps d"



section \<open>Operation builders (\<open>operations.py\<close>)\<close>

definition RequestOperation_create :: "conv_id \<Rightarrow> string \<Rightarrow> pydict \<Rightarrow> pydict" where
  "RequestOperation_create conv ref data =
     [(''type'', JStr ''create''),
      (''conv_id'', JStr (str_conv conv)),
      (''obj'', JStr ''task''),
      (''ref'', JStr ref),
      (''data'', JDict data)]"

definition RequestOperation_modify_ref :: "conv_id \<Rightarrow> string \<Rightarrow> pydict \<Rightarrow> pydict" where
  "RequestOperation_modify_ref conv ref data =
     [(''type'', JStr ''modify''),
      (''conv_id'', JStr (str_conv conv)),
      (''obj'', JStr ''task''),
      (''ref'', JStr ref),
      (''data'', JDict data)]"

definition RequestOperation_modify_id :: "conv_id \<Rightarrow> string \<Rightarrow> pydict \<Rightarrow> pydict" where
  "RequestOperation_modify_id conv obj_id data =
     [(''type'', JStr ''modify''),
      (''conv_id'', JStr (str_conv conv)),
      (''obj'', JStr ''task''),
      (''obj_id'', JStr obj_id),
      (''data'', JDict data)]"

definition RequestOperation_get :: "conv_id \<Rightarrow> string \<Rightarrow> pydict" where
  "RequestOperation_get conv ref =
     [(''type'', JStr ''get''),
      (''conv_id'', JStr (str_conv conv)),
      (''obj'', JStr ''task''),
      (''ref'', JStr ref)]"

definition RequestOperation_get_by_id :: "conv_id \<Rightarrow> string \<Rightarrow> pydict" where
  "RequestOperation_get_by_id conv obj_id =
     [(''type'', JStr ''get''),
      (''conv_id'', JStr (str_conv conv)),
      (''obj'', JStr ''task''),
      (''obj_id'', JStr obj_id)]"

text \<open>
  \<open>if data:\<close> on an \<open>Optional[Dict]\<close> and \<open>if error_code:\<close> on an \<open>Optional[str]\<close>:
  \<open>None\<close> is false, and so is the empty dict and the empty string.
\<close>

fun truthy :: "'a list option \<Rightarrow> bool" where
  "truthy None = False"
| "truthy (Some xs) = (xs \<noteq> [])"

definition ResponseOperation_ok :: "conv_id \<Rightarrow> string \<Rightarrow> pydict option \<Rightarrow> pydict" where
  "ResponseOperation_ok conv ref data =
     (let operation =
            [(''obj'', JStr ''task''),
             (''proc'', JStr ''ok''),
             (''conv_id'', JStr (str_conv conv)),
             (''ref'', JStr ref)]
      in case data of
           None \<Rightarrow> operation
         | Some d \<Rightarrow> if truthy data then AList.update ''data'' (JDict d) operation else operation)"

definition ResponseOperation_error ::
  "conv_id \<Rightarrow> string \<Rightarrow> string \<Rightarrow> string option \<Rightarrow> pydict" where
  "ResponseOperation_error conv ref error_message error_code =
     (let operation =
            [(''obj'', JStr ''task''),
             (''proc'', JStr ''error''),
             (''conv_id'', JStr (str_conv conv)),
             (''ref'', JStr ref),
             (''error_message'', JStr error_message)]
      in case error_code of
           None \<Rightarrow> operation
         | Some c \<Rightarrow>
             if truthy error_code then AList.update ''error_code'' (JStr c) operation
             else operation)"

section \<open>The batch (\<open>batch.py\<close>)\<close>

record batch =
  operations :: "pydict list"
  max_batch_size :: int

text \<open>\<open>OperationBatch.__init__\<close>: an empty list and the capacity as given, unchecked.\<close>

definition OperationBatch :: "int \<Rightarrow> batch" where
  "OperationBatch n = \<lparr>operations = [], max_batch_size = n\<rparr>"

definition is_empty :: "batch \<Rightarrow> bool" where
  "is_empty b = (length (operations b) = 0)"

definition is_full :: "batch \<Rightarrow> bool" where
  "is_full b = (int (length (operations b)) \<ge> max_batch_size b)"

text \<open>\<open>OperationBatch.size\<close>.\<close>

definition batch_size :: "batch \<Rightarrow> int" where
  "batch_size b = int (length (operations b))"

definition get_operations :: "batch \<Rightarrow> pydict list" where
  "get_operations b = operations b"

text \<open>
  \<open>add\<close> raises \<open>ValueError\<close> before it touches the list, so the batch a failed call
  leaves behind is the batch it was given; a call that returns hands back the new batch.
\<close>

definition add :: "batch \<Rightarrow> pydict \<Rightarrow> exn + batch" where
  "add b operation =
     (if int (length (operations b)) \<ge> max_batch_size b
      then Inl (ValueError (''Batch is full (max size: '' @ str_int (max_batch_size b) @ '')''))
      else Inr (b\<lparr>operations := operations b @ [operation]\<rparr>))"

definition clear :: "batch \<Rightarrow> batch" where
  "clear b = b\<lparr>operations := []\<rparr>"

text \<open>
  The generated reference \<open>f"task-{int(time.time())}-{uuid.uuid4().hex[:8]}"\<close>. The clock
  and the random UUID are inputs: \<open>now\<close> is \<open>int(time.time())\<close>, \<open>u\<close> the 128-bit value
  of the UUID, whose \<open>hex\<close> is its 32 lowercase hexadecimal digits.
\<close>

definition uuid_hex :: "128 word \<Rightarrow> string" where
  "uuid_hex u = map (\<lambda>k. hex_digit (unat (drop_bit (4 * (31 - k)) u AND 15))) [0..<32]"

definition generate_ref :: "int \<Rightarrow> 128 word \<Rightarrow> string" where
  "generate_ref now u = ''task-'' @ str_int now @ ''-'' @ take 8 (uuid_hex u)"

definition add_create ::
  "batch \<Rightarrow> conv_id \<Rightarrow> pydict \<Rightarrow> string option \<Rightarrow> int \<Rightarrow> 128 word \<Rightarrow> exn + (string \<times> batch)" where
  "add_create b conv data ref now u =
     (let ref' = (case ref of None \<Rightarrow> generate_ref now u | Some r \<Rightarrow> r);
          operation = RequestOperation_create conv ref' data
      in case add b operation of
           Inl e \<Rightarrow> Inl e
         | Inr b' \<Rightarrow> Inr (ref', b'))"

definition add_modify_ref :: "batch \<Rightarrow> conv_id \<Rightarrow> string \<Rightarrow> pydict \<Rightarrow> exn + batch" where
  "add_modify_ref b conv ref data = add b (RequestOperation_modify_ref conv ref data)"

definition add_modify_id :: "batch \<Rightarrow> conv_id \<Rightarrow> string \<Rightarrow> pydict \<Rightarrow> exn + batch" where
  "add_modify_id b conv obj_id data = add b (RequestOperation_modify_id conv obj_id data)"

definition add_get :: "batch \<Rightarrow> conv_id \<Rightarrow> string \<Rightarrow> exn + batch" where
  "add_get b conv ref = add b (RequestOperation_get conv ref)"

definition add_get_by_id :: "batch \<Rightarrow> conv_id \<Rightarrow> string \<Rightarrow> exn + batch" where
  "add_get_by_id b conv obj_id = add b (RequestOperation_get_by_id conv obj_id)"

text \<open>
  A sequence of calls on one batch object. A call that raises leaves the object as it
  was and the caller goes on with it.
\<close>

datatype call =
    Add pydict
  | AddCreate conv_id pydict "string option" int "128 word"
  | AddModifyRef conv_id string pydict
  | AddModifyId conv_id string pydict
  | AddGet conv_id string
  | AddGetById conv_id string
  | Clear

fun perform :: "batch \<Rightarrow> call \<Rightarrow> exn + batch" where
  "perform b (Add operation) = add b operation"
| "perform b (AddCreate conv data ref now u) =
     (case add_create b conv data ref now u of Inl e \<Rightarrow> Inl e | Inr (r, b') \<Rightarrow> Inr b')"
| "perform b (AddModifyRef conv ref data) = add_modify_ref b conv ref data"
| "perform b (AddModifyId conv obj_id data) = add_modify_id b conv obj_id data"
| "perform b (AddGet conv ref) = add_get b conv ref"
| "perform b (AddGetById conv obj_id) = add_get_by_id b conv obj_id"
| "perform b Clear = Inr (clear b)"

definition after_call :: "batch \<Rightarrow> call \<Rightarrow> batch" where
  "after_call b c = (case perform b c of Inl e \<Rightarrow> b | Inr b' \<Rightarrow> b')"

definition after_calls :: "batch \<Rightarrow> call list \<Rightarrow> batch" where
  "after_calls b cs = foldl after_call b cs"

text \<open>Adding a list of operations one after the other, stopping at the first failure.\<close>

fun add_all :: "batch \<Rightarrow> pydict list \<Rightarrow> exn + batch" where
  "add_all b [] = Inr b"
| "add_all b (operation # rest) =
     (case add b operation of Inl e \<Rightarrow> Inl e | Inr b' \<Rightarrow> add_all b' rest)"


section \<open>The response view (\<open>client.py\<close>, \<open>CorezoidResponse\<close>)\<close>

text \<open>
  \<open>d.get(k)\<close>: the value, or \<open>None\<close> when the key is absent. The field \<open>self.data\<close> of
  the response is \<open>data_raw\<close> here.
\<close>

definition py_get :: "pydict \<Rightarrow> string \<Rightarrow> json" where
  "py_get d k = (case map_of d k of None \<Rightarrow> JNull | Some v \<Rightarrow> v)"

record response =
  data_raw :: pydict
  request_proc :: json
  ops :: json

definition CorezoidResponse :: "pydict \<Rightarrow> response" where
  "CorezoidResponse response_data =
     \<lparr>data_raw = response_data,
      request_proc = py_get response_data ''request_proc'',
      ops = (case map_of response_data ''ops'' of None \<Rightarrow> JList [] | Some v \<Rightarrow> v)\<rparr>"

definition is_success :: "response \<Rightarrow> bool" where
  "is_success r = (request_proc r = JStr ''ok'')"

definition get_error :: "response \<Rightarrow> json" where
  "get_error r = (if is_success r then JNull else py_get (data_raw r) ''error_message'')"

text \<open>
  The scan of \<open>get_operation_result\<close>. An element that is not a dict has no \<open>get\<close>
  (\<open>AttributeError\<close>); \<open>op.get('ref') == ref\<close> holds only for a string value equal to \<open>ref\<close>.
\<close>

fun scan_ref :: "json list \<Rightarrow> string \<Rightarrow> exn + pydict option" where
  "scan_ref [] ref = Inr None"
| "scan_ref (JDict d # rest) ref =
     (if py_get d ''ref'' = JStr ref then Inr (Some d) else scan_ref rest ref)"
| "scan_ref (other # rest) ref = Inl (AttributeError ''get'')"

text \<open>
  \<open>for op in self.ops\<close>: a list is scanned; a dict or a string yields its keys or its
  characters, strings without \<open>get\<close>; \<open>None\<close>, a bool and an int cannot be iterated.
\<close>

definition get_operation_result :: "response \<Rightarrow> string \<Rightarrow> exn + pydict option" where
  "get_operation_result r ref =
     (case ops r of
        JList xs \<Rightarrow> scan_ref xs ref
      | JDict kvs \<Rightarrow> scan_ref (map (JStr \<circ> fst) kvs) ref
      | JStr s \<Rightarrow> scan_ref (map (\<lambda>c. JStr [c]) s) ref
      | other \<Rightarrow> Inl (TypeError ''object is not iterable''))"

section \<open>The transport (\<open>http.py\<close>)\<close>

text \<open>
  What \<open>session.post\<close> of the \<open>requests\<close> library comes back with: it raises a
  \<open>RequestException\<close> (connection refused, timeout, TLS failure), or the exchange completes
  with a status code, a reason phrase and a body. The clock, the JSON parser and the
  network stand outside the program and are inputs of the model: \<open>clock\<close> is
  \<open>int(time.time())\<close>, \<open>json_loads\<close> is \<open>json.loads\<close> (\<open>None\<close> when the text is not JSON).
\<close>

datatype exchange = RequestException string | Response int string string

record env =
  clock :: int
  json_loads :: "string \<Rightarrow> json option"
  session_post :: "string \<Rightarrow> string \<Rightarrow> (string \<times> string) list \<Rightarrow> exchange"

text \<open>
  \<open>Response.raise_for_status\<close>: for a status from 400 to 599 it raises \<open>HTTPError\<close>, which
  is a \<open>RequestException\<close>; the result here is the message of the exception, if raised.
\<close>

definition raise_for_status :: "string \<Rightarrow> int \<Rightarrow> string \<Rightarrow> string option" where
  "raise_for_status url status reason =
     (if 400 \<le> status \<and> status < 500
      then Some (str_int status @ '' Client Error: '' @ reason @ '' for url: '' @ url)
      else if 500 \<le> status \<and> status < 600
      then Some (str_int status @ '' Server Error: '' @ reason @ '' for url: '' @ url)
      else None)"

text \<open>
  \<open>HTTPClient.post\<close>. The \<open>except requests.exceptions.RequestException\<close> clause encloses
  \<open>raise_for_status\<close>, so the \<open>HTTPError\<close> of a completed exchange is turned into
  \<open>ConnectionError\<close> like a failure of the transport; the \<open>APIError\<close> raised for a body that
  is not JSON is no \<open>RequestException\<close> and passes through.
\<close>

definition post :: "env \<Rightarrow> string \<Rightarrow> json \<Rightarrow> (string \<times> string) list \<Rightarrow> exn + json" where
  "post e url d headers =
     (let json_data = to_json d
      in case session_post e url json_data headers of
           RequestException msg \<Rightarrow>
             Inl (ConnectionError (''Failed to connect to Corezoid API: '' @ msg))
         | Response status reason body \<Rightarrow>
             (case raise_for_status url status reason of
                Some msg \<Rightarrow> Inl (ConnectionError (''Failed to connect to Corezoid API: '' @ msg))
              | None \<Rightarrow>
                  (case json_loads e body of
                     None \<Rightarrow> Inl (APIError ''Invalid JSON response from Corezoid API'' (Some body))
                   | Some response_json \<Rightarrow> Inr response_json)))"

section \<open>The client (\<open>client.py\<close>, \<open>CorezoidClient\<close>)\<close>

record config =
  api_login :: string
  api_secret :: string
  api_url :: string

definition current_timestamp :: "env \<Rightarrow> string" where
  "current_timestamp e = str_int (clock e)"

text \<open>\<open>CorezoidClient._prepare_content\<close>.\<close>

definition prepare_content :: "pydict list \<Rightarrow> string" where
  "prepare_content operation_list = to_json (JDict [(''ops'', JList (map JDict operation_list))])"

text \<open>
  \<open>send\<close> returns its result together with the interactions it had with the outside, in
  order: reading the clock, computing the signature, and the HTTP POST. \<open>from_json(content)\<close>
  is \<open>json_loads e content\<close>; a response that is not a dict has no \<open>get\<close> for
  \<open>CorezoidResponse\<close> to call.
\<close>

datatype event =
    ClockRead
  | SignatureComputed string string string
  | HttpPost string string "(string \<times> string) list"

definition send :: "env \<Rightarrow> config \<Rightarrow> pydict list \<Rightarrow> (exn + response) \<times> event list" where
  "send e cfg operation_list =
     (if operation_list = [] then (Inl (ValidationError ''No operations provided''), [])
      else
        let timestamp = current_timestamp e;
            content = prepare_content operation_list;
            signature = generate_signature (api_secret cfg) timestamp content;
            headers = [(''Content-Type'', ''application/json''),
                       (''X-API-Login'', api_login cfg),
                       (''X-API-Signature'', signature),
                       (''X-API-Timestamp'', timestamp)];
            before = [ClockRead, SignatureComputed (api_secret cfg) timestamp content]
        in case json_loads e content of
             None \<Rightarrow> (Inl (ValueError ''JSONDecodeError''), before)
           | Some body \<Rightarrow>
               (let trace = before @ [HttpPost (api_url cfg) (to_json body) headers]
                in case post e (api_url cfg) body headers of
                     Inl err \<Rightarrow> (Inl err, trace)
                   | Inr (JDict response_data) \<Rightarrow> (Inr (CorezoidResponse response_data), trace)
                   | Inr other \<Rightarrow> (Inl (AttributeError ''get''), trace)))"

definition send_batch :: "env \<Rightarrow> config \<Rightarrow> batch \<Rightarrow> (exn + response) \<times> event list" where
  "send_batch e cfg b =
     (if is_empty b then (Inl (ValidationError ''Batch is empty''), [])
      else send e cfg (get_operations b))"

section \<open>Decimal rendering\<close>

lemma digit_val_digit_char: "n < 10 \<Longrightarrow> digit_val (digit_char n) = n"
proof -
  assume "n < 10"
  then have "n \<in> {0, 1, 2, 3, 4, 5, 6, 7, 8, 9}" by auto
  then show ?thesis
    by (auto simp: digit_val_def digit_char_def)
qed

lemma nat_of_decimal_snoc:
  "nat_of_decimal (s @ [c]) = 10 * nat_of_decimal s + digit_val c"
  by (simp add: nat_of_decimal_def)

lemma nat_of_decimal_str_nat: "nat_of_decimal (str_nat n) = n"
proof (induction n rule: str_nat.induct)
  case (1 n)
  show ?case
  proof (cases "n < 10")
    case True
    then show ?thesis
      by (subst str_nat.simps) (simp add: nat_of_decimal_def digit_val_digit_char)
  next
    case False
    with 1 have "nat_of_decimal (str_nat (n div 10)) = n div 10" by simp
    with False show ?thesis
      by (subst str_nat.simps) (simp add: nat_of_decimal_snoc digit_val_digit_char)
  qed
qed

lemma is_digit_digit_char: "n < 10 \<Longrightarrow> is_digit (digit_char n)"
proof -
  assume "n < 10"
  then have "n \<in> {0, 1, 2, 3, 4, 5, 6, 7, 8, 9}" by auto
  then show ?thesis
    by (auto simp: is_digit_def digit_char_def)
qed

lemma str_nat_digits: "list_all is_digit (str_nat n)"
proof (induction n rule: str_nat.induct)
  case (1 n)
  then show ?case
    by (subst str_nat.simps) (simp add: is_digit_digit_char)
qed

lemma str_nat_nonempty: "str_nat n \<noteq> []"
  by (subst str_nat.simps) simp

lemma hd_str_nat_not_minus: "hd (str_nat n) \<noteq> CHR ''-''"
proof -
  have "is_digit (hd (str_nat n))"
    using str_nat_digits [of n] str_nat_nonempty [of n]
    by (cases "str_nat n") simp_all
  then show ?thesis by (auto simp: is_digit_def)
qed

lemma int_of_decimal_str_int: "int_of_decimal (str_int i) = i"
proof (cases "i < 0")
  case True
  then show ?thesis
    by (simp add: int_of_decimal_def str_int_def nat_of_decimal_str_nat)
next
  case False
  obtain c cs where s: "str_nat (nat i) = c # cs"
    using str_nat_nonempty [of "nat i"] by (cases "str_nat (nat i)") auto
  with hd_str_nat_not_minus [of "nat i"] have "c \<noteq> CHR ''-''" by simp
  moreover have "nat_of_decimal (c # cs) = nat i"
    using nat_of_decimal_str_nat [of "nat i"] s by simp
  ultimately show ?thesis using False s
    by (simp add: int_of_decimal_def str_int_def)
qed

section \<open>Claims about the operation builders\<close>

text \<open>
  C7. For every conveyor id (integer or string), reference and data,
  \<open>RequestOperation.create\<close> returns the dict with \<open>type = "create"\<close>, \<open>obj = "task"\<close>,
  \<open>conv_id\<close> the string form of the input (the string itself, or the decimal numeral of
  the integer), and \<open>ref\<close> and \<open>data\<close> echoed unchanged. The dict has exactly these five
  keys and no value is null, so no field is present as a null placeholder.
\<close>

theorem create_shape:
  "map_of (RequestOperation_create conv ref data) ''type'' = Some (JStr ''create'')
   \<and> map_of (RequestOperation_create conv ref data) ''obj'' = Some (JStr ''task'')
   \<and> map_of (RequestOperation_create conv ref data) ''conv_id'' = Some (JStr (str_conv conv))
   \<and> str_conv (ConvStr s) = s
   \<and> int_of_decimal (str_conv (ConvInt i)) = i
   \<and> map_of (RequestOperation_create conv ref data) ''ref'' = Some (JStr ref)
   \<and> map_of (RequestOperation_create conv ref data) ''data'' = Some (JDict data)
   \<and> map fst (RequestOperation_create conv ref data)
       = [''type'', ''conv_id'', ''obj'', ''ref'', ''data'']
   \<and> JNull \<notin> snd ` set (RequestOperation_create conv ref data)"
  by (simp add: RequestOperation_create_def int_of_decimal_str_int)

text \<open>
  C10. \<open>ResponseOperation.ok\<close> has a \<open>data\<close> key exactly when the data argument is truthy:
  \<open>None\<close> and the empty dict both give the four-key dict without \<open>data\<close>, and a non-empty
  dict is stored under \<open>data\<close>. \<open>ResponseOperation.error\<close> has an \<open>error_code\<close> key exactly
  when the code is truthy: \<open>None\<close> and the empty string both give the dict without it.
\<close>

theorem ok_error_optional_fields:
  "(map_of (ResponseOperation_ok conv ref data) ''data'' \<noteq> None) = truthy data
   \<and> (''data'' \<in> set (map fst (ResponseOperation_ok conv ref data))) = truthy data
   \<and> ResponseOperation_ok conv ref None = ResponseOperation_ok conv ref (Some [])
   \<and> map fst (ResponseOperation_ok conv ref None) = [''obj'', ''proc'', ''conv_id'', ''ref'']
   \<and> map_of (ResponseOperation_ok conv ref (Some (kv # d))) ''data'' = Some (JDict (kv # d))
   \<and> (map_of (ResponseOperation_error conv ref msg code) ''error_code'' \<noteq> None) = truthy code
   \<and> (''error_code'' \<in> set (map fst (ResponseOperation_error conv ref msg code))) = truthy code
   \<and> ResponseOperation_error conv ref msg None = ResponseOperation_error conv ref msg (Some [])
   \<and> map fst (ResponseOperation_error conv ref msg None)
       = [''obj'', ''proc'', ''conv_id'', ''ref'', ''error_message'']
   \<and> map_of (ResponseOperation_error conv ref msg (Some (ch # cs))) ''error_code''
       = Some (JStr (ch # cs))"
  by (cases data; cases code)
     (auto simp: ResponseOperation_ok_def ResponseOperation_error_def Let_def)

section \<open>The batch and its capacity\<close>

lemma add_cases:
  "add b x = (if is_full b
              then Inl (ValueError (''Batch is full (max size: '' @ str_int (max_batch_size b) @ '')''))
              else Inr (b\<lparr>operations := operations b @ [x]\<rparr>))"
  by (simp add: add_def is_full_def)

lemma add_preserves:
  assumes "int (length (operations b)) \<le> max_batch_size b" and "add b x = Inr b'"
  shows "int (length (operations b')) \<le> max_batch_size b' \<and> max_batch_size b' = max_batch_size b"
  using assms by (auto simp: add_def split: if_splits)

lemma perform_preserves:
  assumes "int (length (operations b)) \<le> max_batch_size b" and "0 \<le> max_batch_size b"
    and "perform b c = Inr b'"
  shows "int (length (operations b')) \<le> max_batch_size b' \<and> max_batch_size b' = max_batch_size b"
proof (cases c)
  case (AddCreate conv d r now u)
  with assms(3) obtain r' where "add b (RequestOperation_create conv r' d) = Inr b'"
    by (auto simp: add_create_def Let_def split: sum.splits)
  with assms(1) show ?thesis by (rule add_preserves)
next
  case Clear
  with assms show ?thesis by (auto simp: clear_def)
qed (use assms in \<open>auto simp: add_modify_ref_def add_modify_id_def add_get_def add_get_by_id_def
        dest: add_preserves\<close>)

lemma after_call_preserves:
  assumes "int (length (operations b)) \<le> max_batch_size b" and "0 \<le> max_batch_size b"
  shows "int (length (operations (after_call b c))) \<le> max_batch_size (after_call b c)
         \<and> max_batch_size (after_call b c) = max_batch_size b"
proof (cases "perform b c")
  case (Inl e)
  with assms show ?thesis by (simp add: after_call_def)
next
  case (Inr b')
  with perform_preserves [OF assms this] show ?thesis by (simp add: after_call_def)
qed

lemma after_calls_preserves:
  assumes "int (length (operations b)) \<le> max_batch_size b" and "0 \<le> max_batch_size b"
  shows "int (length (operations (after_calls b cs))) \<le> max_batch_size b
         \<and> max_batch_size (after_calls b cs) = max_batch_size b"
  using assms
proof (induction cs arbitrary: b)
  case Nil
  then show ?case by (simp add: after_calls_def)
next
  case (Cons c cs)
  from after_call_preserves [OF Cons.prems, of c]
  have 1: "int (length (operations (after_call b c))) \<le> max_batch_size (after_call b c)"
    and 2: "max_batch_size (after_call b c) = max_batch_size b" by simp_all
  from Cons.prems(2) 2 have 3: "0 \<le> max_batch_size (after_call b c)" by simp
  from Cons.IH [OF 1 3] 2 show ?case by (simp add: after_calls_def)
qed

lemma add_all_append:
  "int (length (operations b) + length xs) \<le> max_batch_size b \<Longrightarrow>
   add_all b xs = Inr (b\<lparr>operations := operations b @ xs\<rparr>)"
proof (induction xs arbitrary: b)
  case Nil
  then show ?case by simp
next
  case (Cons x xs)
  then show ?case by (simp add: add_def)
qed

lemma add_all_overflow:
  "int (length (operations b)) \<le> max_batch_size b \<Longrightarrow>
   int (length (operations b) + length xs) > max_batch_size b \<Longrightarrow>
   add_all b xs = Inl (ValueError (''Batch is full (max size: '' @ str_int (max_batch_size b) @ '')''))"
proof (induction xs arbitrary: b)
  case Nil
  then show ?case by simp
next
  case (Cons x xs)
  show ?case
  proof (cases "is_full b")
    case True
    then show ?thesis by (simp add: add_cases)
  next
    case False
    let ?b' = "b\<lparr>operations := operations b @ [x]\<rparr>"
    from False have "int (length (operations ?b')) \<le> max_batch_size ?b'"
      by (simp add: is_full_def)
    moreover from Cons.prems(2)
    have "int (length (operations ?b') + length xs) > max_batch_size ?b'" by simp
    ultimately have "add_all ?b' xs
        = Inl (ValueError (''Batch is full (max size: '' @ str_int (max_batch_size ?b') @ '')''))"
      by (rule Cons.IH)
    with False show ?thesis by (simp add: add_cases)
  qed
qed

lemma clear_then_add:
  "0 < N \<Longrightarrow>
   add (clear \<lparr>operations = xs, max_batch_size = N\<rparr>) x
     = Inr \<lparr>operations = [x], max_batch_size = N\<rparr>"
  by (simp add: clear_def add_def)

lemma add_when_full:
  "int (length xs) = N \<Longrightarrow>
   add \<lparr>operations = xs, max_batch_size = N\<rparr> x
     = Inl (ValueError (''Batch is full (max size: '' @ str_int N @ '')''))
   \<and> after_call \<lparr>operations = xs, max_batch_size = N\<rparr> (Add x)
     = \<lparr>operations = xs, max_batch_size = N\<rparr>"
  by (simp add: add_def after_call_def)

text \<open>
  C2, as amended. For every batch constructed with a capacity \<open>N \<ge> 0\<close>: after every
  sequence of \<open>add\<close>, \<open>add_create\<close>, \<open>add_modify_ref\<close>, \<open>add_modify_id\<close>, \<open>add_get\<close>,
  \<open>add_get_by_id\<close> and \<open>clear\<close> calls the batch holds at most \<open>N\<close> operations and its
  capacity is still \<open>N\<close>; starting from empty, adding up to \<open>N\<close> operations succeeds and
  keeps them in insertion order, the add on a batch of \<open>N\<close> operations fails with the
  capacity error and leaves the batch as it was, and adding more than \<open>N\<close> fails;
  \<open>clear\<close> empties the batch and keeps the capacity, and for \<open>N \<ge> 1\<close> the cleared batch
  accepts an add again.
\<close>

theorem batch_capacity:
  assumes "0 \<le> N"
  shows "int (length (operations (after_calls (OperationBatch N) cs))) \<le> N
    \<and> max_batch_size (after_calls (OperationBatch N) cs) = N
    \<and> (int (length xs) \<le> N \<longrightarrow>
           add_all (OperationBatch N) xs = Inr \<lparr>operations = xs, max_batch_size = N\<rparr>)
    \<and> (int (length xs) = N \<longrightarrow>
           add \<lparr>operations = xs, max_batch_size = N\<rparr> x
             = Inl (ValueError (''Batch is full (max size: '' @ str_int N @ '')''))
           \<and> after_call \<lparr>operations = xs, max_batch_size = N\<rparr> (Add x)
             = \<lparr>operations = xs, max_batch_size = N\<rparr>)
    \<and> (int (length xs) > N \<longrightarrow>
           add_all (OperationBatch N) xs
             = Inl (ValueError (''Batch is full (max size: '' @ str_int N @ '')'')))
    \<and> max_batch_size (clear b) = max_batch_size b
    \<and> operations (clear b) = []
    \<and> (0 < N \<longrightarrow>
           add (clear \<lparr>operations = xs, max_batch_size = N\<rparr>) x
             = Inr \<lparr>operations = [x], max_batch_size = N\<rparr>)"
proof -
  have inv0: "int (length (operations (OperationBatch N))) \<le> max_batch_size (OperationBatch N)"
    and cap0: "0 \<le> max_batch_size (OperationBatch N)"
    using assms by (simp_all add: OperationBatch_def)
  from after_calls_preserves [OF inv0 cap0, of cs]
  have 1: "int (length (operations (after_calls (OperationBatch N) cs))) \<le> N"
    and 2: "max_batch_size (after_calls (OperationBatch N) cs) = N"
    by (simp_all add: OperationBatch_def)
  have 3: "int (length xs) \<le> N \<longrightarrow>
           add_all (OperationBatch N) xs = Inr \<lparr>operations = xs, max_batch_size = N\<rparr>"
    using add_all_append [of "OperationBatch N" xs] by (simp add: OperationBatch_def)
  have 4: "int (length xs) > N \<longrightarrow>
           add_all (OperationBatch N) xs
             = Inl (ValueError (''Batch is full (max size: '' @ str_int N @ '')''))"
    using add_all_overflow [OF inv0, of xs] by (simp add: OperationBatch_def)
  have 5: "max_batch_size (clear b) = max_batch_size b" "operations (clear b) = []"
    by (simp_all add: clear_def)
  from 1 2 3 4 5 add_when_full [of xs N x] clear_then_add [of N xs x]
  show ?thesis by blast
qed

theorem batch_capacity_witness:
  "(0::int) \<le> 2
   \<and> int (length (operations (after_calls (OperationBatch 2)
        [Add [(''type'', JStr ''get'')], AddGet (ConvInt 7) ''r1'', AddGetById (ConvStr ''7'') ''id1'',
         Clear, AddModifyRef (ConvInt 7) ''r2'' []]))) \<le> 2
   \<and> add_all (OperationBatch 2) [[(''ref'', JStr ''a'')], [(''ref'', JStr ''b'')]]
       = Inr \<lparr>operations = [[(''ref'', JStr ''a'')], [(''ref'', JStr ''b'')]], max_batch_size = 2\<rparr>
   \<and> add \<lparr>operations = [[(''ref'', JStr ''a'')], [(''ref'', JStr ''b'')]], max_batch_size = 2\<rparr>
         [(''ref'', JStr ''c'')]
       = Inl (ValueError (''Batch is full (max size: '' @ str_int 2 @ '')''))
   \<and> add (clear \<lparr>operations = [[(''ref'', JStr ''a'')], [(''ref'', JStr ''b'')]],
                   max_batch_size = 2\<rparr>) [(''ref'', JStr ''c'')]
       = Inr \<lparr>operations = [[(''ref'', JStr ''c'')]], max_batch_size = 2\<rparr>
   \<and> add_all (OperationBatch 2)
         [[(''ref'', JStr ''a'')], [(''ref'', JStr ''b'')], [(''ref'', JStr ''c'')]]
       = Inl (ValueError (''Batch is full (max size: '' @ str_int 2 @ '')''))"
  using batch_capacity [of 2 "[Add [(''type'', JStr ''get'')], AddGet (ConvInt 7) ''r1'',
         AddGetById (ConvStr ''7'') ''id1'', Clear, AddModifyRef (ConvInt 7) ''r2'' []]"
         "[[(''ref'', JStr ''a'')], [(''ref'', JStr ''b'')]]" "[(''ref'', JStr ''c'')]"]
        batch_capacity [of 2 "[]"
         "[[(''ref'', JStr ''a'')], [(''ref'', JStr ''b'')], [(''ref'', JStr ''c'')]]"
         "[(''ref'', JStr ''c'')]"]
  by simp

text \<open>
  C2 as stated fails for capacities below one: a batch of capacity 0 is full when empty
  and \<open>clear\<close> does not make it accept an add, and a batch of capacity -1 holds more
  operations (none) than its capacity from the start.
\<close>

theorem batch_capacity_counterexample:
  "is_full (OperationBatch 0)
   \<and> add (clear (OperationBatch 0)) [(''type'', JStr ''get'')]
       = Inl (ValueError (''Batch is full (max size: '' @ str_int 0 @ '')''))
   \<and> \<not> int (length (operations (OperationBatch (- 1)))) \<le> - 1"
  by (simp add: is_full_def OperationBatch_def clear_def add_def)

section \<open>Generated references\<close>



lemma is_lower_hex_hex_digit: "n < 16 \<Longrightarrow> is_lower_hex (hex_digit n)"
proof -
  have "list_all (\<lambda>k. is_lower_hex (hex_digit k)) [0..<16]" by code_simp
  moreover assume "n < 16"
  ultimately show ?thesis by (simp add: list_all_iff)
qed








section \<open>The response view\<close>

lemma scan_ref_dicts:
  "scan_ref (map JDict rs) ref = Inr (find (\<lambda>r. py_get r ''ref'' = JStr ref) rs)"
  by (induction rs) simp_all

text \<open>
  C6. For every response whose \<open>ops\<close> is a list of dicts \<open>[r0, r1, ...]\<close>,
  \<open>get_operation_result(ref)\<close> returns the first \<open>ri\<close> whose \<open>ref\<close> field equals \<open>ref\<close>
  (\<open>find\<close> returns the first element that satisfies the test), and \<open>None\<close> when there is
  none.
\<close>

theorem get_operation_result_first_match:
  assumes "map_of response_data ''ops'' = Some (JList (map JDict rs))"
  shows "get_operation_result (CorezoidResponse response_data) ref
           = Inr (find (\<lambda>r. py_get r ''ref'' = JStr ref) rs)"
  using assms by (simp add: get_operation_result_def CorezoidResponse_def scan_ref_dicts)

text \<open>
  The instance of the specification, with a duplicate reference added: the first \<open>"a"\<close>
  record is returned for \<open>"a"\<close>, and \<open>None\<close> for \<open>"z"\<close>.
\<close>

theorem get_operation_result_first_match_witness:
  "map_of [(''request_proc'', JStr ''ok''),
           (''ops'', JList [JDict [(''ref'', JStr ''a''), (''proc'', JStr ''ok'')],
                            JDict [(''ref'', JStr ''b''), (''proc'', JStr ''ok'')],
                            JDict [(''ref'', JStr ''a''), (''proc'', JStr ''error'')]])] ''ops''
     = Some (JList (map JDict [[(''ref'', JStr ''a''), (''proc'', JStr ''ok'')],
                               [(''ref'', JStr ''b''), (''proc'', JStr ''ok'')],
                               [(''ref'', JStr ''a''), (''proc'', JStr ''error'')]]))
   \<and> get_operation_result
        (CorezoidResponse
           [(''request_proc'', JStr ''ok''),
            (''ops'', JList [JDict [(''ref'', JStr ''a''), (''proc'', JStr ''ok'')],
                             JDict [(''ref'', JStr ''b''), (''proc'', JStr ''ok'')],
                             JDict [(''ref'', JStr ''a''), (''proc'', JStr ''error'')]])]) ''a''
     = Inr (Some [(''ref'', JStr ''a''), (''proc'', JStr ''ok'')])
   \<and> get_operation_result
        (CorezoidResponse
           [(''request_proc'', JStr ''ok''),
            (''ops'', JList [JDict [(''ref'', JStr ''a''), (''proc'', JStr ''ok'')],
                             JDict [(''ref'', JStr ''b''), (''proc'', JStr ''ok'')],
                             JDict [(''ref'', JStr ''a''), (''proc'', JStr ''error'')]])]) ''z''
     = Inr None"
  using get_operation_result_first_match
          [of "[(''request_proc'', JStr ''ok''),
                (''ops'', JList [JDict [(''ref'', JStr ''a''), (''proc'', JStr ''ok'')],
                                 JDict [(''ref'', JStr ''b''), (''proc'', JStr ''ok'')],
                                 JDict [(''ref'', JStr ''a''), (''proc'', JStr ''error'')]])]"
              "[[(''ref'', JStr ''a''), (''proc'', JStr ''ok'')],
                [(''ref'', JStr ''b''), (''proc'', JStr ''ok'')],
                [(''ref'', JStr ''a''), (''proc'', JStr ''error'')]]" "''a''"]
        get_operation_result_first_match
          [of "[(''request_proc'', JStr ''ok''),
                (''ops'', JList [JDict [(''ref'', JStr ''a''), (''proc'', JStr ''ok'')],
                                 JDict [(''ref'', JStr ''b''), (''proc'', JStr ''ok'')],
                                 JDict [(''ref'', JStr ''a''), (''proc'', JStr ''error'')]])]"
              "[[(''ref'', JStr ''a''), (''proc'', JStr ''ok'')],
                [(''ref'', JStr ''b''), (''proc'', JStr ''ok'')],
                [(''ref'', JStr ''a''), (''proc'', JStr ''error'')]]" "''z''"]
  by (simp add: py_get_def)

text \<open>
  C8, as amended. \<open>is_success()\<close> is true exactly when the \<open>request_proc\<close> field is the
  string \<open>"ok"\<close>; \<open>get_error()\<close> returns \<open>None\<close> when the request succeeded, and otherwise
  whatever the raw response holds under \<open>error_message\<close>, which is \<open>None\<close> when the
  field is absent.
\<close>

theorem response_success_error:
  "is_success (CorezoidResponse d) = (py_get d ''request_proc'' = JStr ''ok'')
   \<and> get_error (CorezoidResponse d)
       = (if py_get d ''request_proc'' = JStr ''ok'' then JNull else py_get d ''error_message'')"
  by (simp add: is_success_def get_error_def CorezoidResponse_def)

text \<open>
  C8 as stated fails on a failed response without an \<open>error_message\<close> field:
  \<open>is_success()\<close> is false and \<open>get_error()\<close> is \<open>None\<close>.
\<close>

theorem get_error_absent_counterexample:
  "\<not> is_success (CorezoidResponse [(''request_proc'', JStr ''error''), (''ops'', JList [])])
   \<and> get_error (CorezoidResponse [(''request_proc'', JStr ''error''), (''ops'', JList [])]) = JNull"
  by (simp add: is_success_def get_error_def CorezoidResponse_def py_get_def)

section \<open>Canonical serialisation\<close>












section \<open>Signatures\<close>

lemma sha256_length: "length (sha256 m) = 32"
  by (simp add: sha256_def Let_def word_bytes_def split: prod.splits)

lemma hexdigest_length: "length (hexdigest bs) = 2 * length bs"
  by (induction bs) (simp_all add: hexdigest_def)

lemma byte_div16: "unat (b :: byte) div 16 < 16"
proof -
  have "unat b < 2 ^ LENGTH(8)" by (rule unsigned_less)
  then have "unat b < 256" by simp
  then show ?thesis by arith
qed

lemma hexdigest_lower_hex: "list_all is_lower_hex (hexdigest bs)"
  by (induction bs) (simp_all add: hexdigest_def is_lower_hex_hex_digit byte_div16)

lemma is_lower_hex_ascii: "is_lower_hex c \<Longrightarrow> is_ascii c"
  by (auto simp: is_lower_hex_def is_ascii_def)

lemma generate_signature_hex:
  "length (generate_signature k t c) = 64 \<and> list_all is_lower_hex (generate_signature k t c)"
  by (simp add: generate_signature_def Let_def hexdigest_length hexdigest_lower_hex
        hmac_sha256_def sha256_length)

lemma generate_signature_ascii: "list_all is_ascii (generate_signature k t c)"
  using generate_signature_hex [of k t c] by (auto simp: list_all_iff is_lower_hex_ascii)

lemma verify_signature_ascii:
  "list_all is_ascii s \<Longrightarrow> verify_signature s k t c = Inr (s = generate_signature k t c)"
  by (simp add: verify_signature_def compare_digest_def generate_signature_ascii)

lemma verify_signature_cases:
  "verify_signature s k t c
     = (if list_all is_ascii s then Inr (s = generate_signature k t c)
        else Inl (TypeError ''comparing strings with non-ASCII characters is not supported''))"
  by (simp add: verify_signature_def compare_digest_def generate_signature_ascii)

text \<open>
  C1. On a signature that holds a non-ASCII character (here the one-character string
  U+00E9), which is never the generated signature, \<open>verify_signature\<close> does not return
  \<open>False\<close>: \<open>hmac.compare_digest\<close> raises \<open>TypeError\<close>. The rest of the claim holds on the
  code: \<open>generate_signature\<close> is a function of its three arguments, its value has 64
  lowercase hexadecimal characters (\<open>generate_signature_hex\<close>), and on an ASCII-only
  signature \<open>verify_signature\<close> returns whether it equals the generated one
  (\<open>verify_signature_cases\<close>).
\<close>

theorem verify_signature_non_ascii:
  "verify_signature [CHR 0xE9] k t c
     = Inl (TypeError ''comparing strings with non-ASCII characters is not supported'')
   \<and> [CHR 0xE9] \<noteq> generate_signature k t c"
proof -
  have "verify_signature [CHR 0xE9] k t c
     = Inl (TypeError ''comparing strings with non-ASCII characters is not supported'')"
    by (simp add: verify_signature_def compare_digest_def is_ascii_def)
  moreover have "[CHR 0xE9] \<noteq> generate_signature k t c"
  proof
    assume "[CHR 0xE9] = generate_signature k t c"
    from this [symmetric] have "length (generate_signature k t c) = 1" by simp
    with generate_signature_hex [of k t c] show False by simp
  qed
  ultimately show ?thesis by simp
qed

section \<open>The transport and the client\<close>

lemma post_cases:
  "post e url d headers =
     (case session_post e url (to_json d) headers of
        RequestException msg \<Rightarrow> Inl (ConnectionError (''Failed to connect to Corezoid API: '' @ msg))
      | Response status reason body \<Rightarrow>
          if 400 \<le> status \<and> status < 600
          then Inl (ConnectionError (''Failed to connect to Corezoid API: ''
                 @ str_int status
                 @ (if status < 500 then '' Client Error: '' else '' Server Error: '')
                 @ reason @ '' for url: '' @ url))
          else (case json_loads e body of
                  None \<Rightarrow> Inl (APIError ''Invalid JSON response from Corezoid API'' (Some body))
                | Some j \<Rightarrow> Inr j))"
  by (simp add: post_def raise_for_status_def Let_def split: exchange.splits)

text \<open>
  C3. A completed exchange with status 500 makes \<open>post\<close> raise \<open>ConnectionError\<close> with the
  message that starts "Failed to connect", the exception it raises when the transport
  itself fails, whatever the body is; and a completed exchange with a status outside
  2xx that is not an error status (here 304) is returned like a success when its body
  parses. Only a body that is not JSON under a status outside 400..599 raises \<open>APIError\<close>
  with the raw body (\<open>post_cases\<close>).
\<close>

theorem post_status_is_connection_error:
  "post (e\<lparr>session_post := \<lambda>url body headers. Response 500 ''Internal Server Error'' text\<rparr>)
        url d headers
     = Inl (ConnectionError (''Failed to connect to Corezoid API: ''
              @ ''500 Server Error: Internal Server Error for url: '' @ url))
   \<and> post (e\<lparr>session_post := \<lambda>url body headers. RequestException msg\<rparr>) url d headers
     = Inl (ConnectionError (''Failed to connect to Corezoid API: '' @ msg))
   \<and> post (e\<lparr>session_post := \<lambda>url body headers. Response 304 ''Not Modified'' text,
              json_loads := \<lambda>body. Some j\<rparr>) url d headers
     = Inr j"
proof -
  have "str_int 500 = ''500''"
    by (simp add: str_int_def str_nat.simps digit_char_def)
  then show ?thesis
    by (simp add: post_cases)
qed

text \<open>
  C5. \<open>send\<close> on an empty list of operations raises \<open>ValidationError\<close> and has had no
  interaction with the outside (no clock read, no signature, no POST); \<open>send_batch\<close> on an
  empty batch (freshly constructed, cleared, or with no operations) raises
  \<open>ValidationError\<close> in the same way.
\<close>

theorem send_empty:
  "send e cfg [] = (Inl (ValidationError ''No operations provided''), [])
   \<and> send_batch e cfg (OperationBatch n) = (Inl (ValidationError ''Batch is empty''), [])
   \<and> send_batch e cfg (clear b) = (Inl (ValidationError ''Batch is empty''), [])
   \<and> send_batch e cfg (b\<lparr>operations := []\<rparr>) = (Inl (ValidationError ''Batch is empty''), [])"
  by (simp add: send_def send_batch_def is_empty_def OperationBatch_def clear_def)

end
